theory Spec2Isabelle
  imports Main
begin

section \<open>Data model\<close>

text \<open>
  The application state of B-Progress, as \<^verbatim>\<open>src/App.tsx\<close> and
  \<^verbatim>\<open>src/services/storage.ts\<close> build and read it. The declarations of
  \<^verbatim>\<open>types.ts\<close> and \<^verbatim>\<open>constants.ts\<close> are not part of the sources, so
  the records below list the fields that the object literals of the sources write, the
  types \<^verbatim>\<open>Task\<close> and \<^verbatim>\<open>Attachment\<close> are the type parameters \<open>'task\<close> and
  \<open>'att\<close>, and the constants \<^verbatim>\<open>STORAGE_KEY\<close>, \<^verbatim>\<open>INITIAL_USERS\<close> and
  \<^verbatim>\<open>INITIAL_TASKS\<close> are parameters of every function that uses them.

  A value that may be \<^verbatim>\<open>null\<close> or \<^verbatim>\<open>undefined\<close> is an \<open>option\<close>. Field names
  shared by several object types carry the type's name as a prefix.
\<close>

datatype Role = ADMIN | FRIEND

record User =
  User_id :: string
  User_name :: string
  username :: string
  role :: Role
  joinedAt :: string

text \<open>
  \<^verbatim>\<open>handleUpdateRecord\<close> writes \<^verbatim>\<open>userId: recordUpdate.userId!\<close>: the assertion
  is erased when the program runs, so the two key fields of a stored record are whatever the
  update carried, \<^verbatim>\<open>undefined\<close> included. JavaScript numbers are integers here
  (minutes).
\<close>

record ProgressRecord =
  Record_id :: string
  userId :: "string option"
  date :: "string option"
  tasksCompleted :: "string list"
  timeSpentMinutes :: int
  remarks :: string
  dayJournal :: string
  mood :: string

text \<open>\<^verbatim>\<open>Partial<ProgressRecord>\<close>: every property may be absent.\<close>

record RecordUpdate =
  upd_id :: "string option"
  upd_userId :: "string option"
  upd_date :: "string option"
  upd_tasksCompleted :: "string list option"
  upd_timeSpentMinutes :: "int option"
  upd_remarks :: "string option"
  upd_dayJournal :: "string option"
  upd_mood :: "string option"

record 'att Message =
  Message_id :: string
  senderId :: string
  receiverId :: string
  content :: string
  attachment :: "'att option"
  timestamp :: string

record 'att Post =
  Post_id :: string
  Post_content :: string
  Post_attachment :: "'att option"
  authorId :: string
  Post_timestamp :: string

record 'att Group =
  Group_id :: string
  Group_name :: string
  description :: string
  memberIds :: "string list"
  posts :: "'att Post list"

record 'att StatusUpdate =
  Status_id :: string
  Status_userId :: string
  userName :: string
  Status_content :: "string option"
  Status_attachment :: "'att option"
  Status_timestamp :: string

record ('task, 'att) AppState =
  users :: "User list"
  tasks :: "'task list"
  records :: "ProgressRecord list"
  messages :: "'att Message list"
  groups :: "'att Group list"
  statuses :: "'att StatusUpdate list"
  currentUser :: "User option"

text \<open>The three imports from \<^verbatim>\<open>../constants\<close>.\<close>

record 'task Constants =
  STORAGE_KEY :: string
  INITIAL_USERS :: "User list"
  INITIAL_TASKS :: "'task list"

section \<open>The platform: promises, JSON, local storage, the remote client\<close>

text \<open>
  An awaited call or a call inside \<^verbatim>\<open>try\<close> either throws or returns a value.
\<close>

datatype 'a outcome = Throws | Returns 'a

text \<open>
  \<^verbatim>\<open>JSON.stringify\<close> and \<^verbatim>\<open>JSON.parse\<close> are functions of the JavaScript
  runtime; they are parameters, and either may throw: \<^verbatim>\<open>JSON.parse\<close> on malformed
  text, \<^verbatim>\<open>JSON.stringify\<close> on an object it cannot serialize. What
  \<^verbatim>\<open>JSON.parse\<close> returns is taken at the type \<^verbatim>\<open>AppState\<close> that
  \<^verbatim>\<open>loadState\<close> declares for its result; text that parses to something that is
  not a state (\<^verbatim>\<open>null\<close>, a number) has no counterpart here.
\<close>

record ('task, 'att) JSON =
  JSON_stringify :: "('task, 'att) AppState \<Rightarrow> string outcome"
  JSON_parse :: "string \<Rightarrow> ('task, 'att) AppState outcome"

text \<open>
  \<^verbatim>\<open>localStorage\<close> holds a map from keys to strings: \<^verbatim>\<open>getItem\<close> gives
  \<^verbatim>\<open>null\<close> for a key that is not there, \<^verbatim>\<open>setItem\<close> stores,
  \<^verbatim>\<open>removeItem\<close> deletes. Each of the three calls may throw instead (storage that
  is blocked, a quota that is exceeded); the three predicates say for which arguments it
  does, and a call that throws leaves the stored items as they were. The sources make all
  three calls outside every \<^verbatim>\<open>try\<close>.
\<close>

record localStorage =
  items :: "string \<rightharpoonup> string"
  getItem_throws :: "string \<Rightarrow> bool"
  setItem_throws :: "string \<Rightarrow> string \<Rightarrow> bool"
  removeItem_throws :: "string \<Rightarrow> bool"

definition getItem :: "localStorage \<Rightarrow> string \<Rightarrow> string option outcome" where
  "getItem ls key = (if getItem_throws ls key then Throws else Returns (items ls key))"

definition setItem :: "localStorage \<Rightarrow> string \<Rightarrow> string \<Rightarrow> localStorage outcome" where
  "setItem ls key v =
     (if setItem_throws ls key v then Throws
      else Returns (ls\<lparr> items := (items ls)(key \<mapsto> v) \<rparr>))"

definition removeItem :: "localStorage \<Rightarrow> string \<Rightarrow> localStorage outcome" where
  "removeItem ls key =
     (if removeItem_throws ls key then Throws
      else Returns (ls\<lparr> items := (items ls)(key := None) \<rparr>))"

text \<open>
  A row of the table \<^verbatim>\<open>app_state\<close>, as \<^verbatim>\<open>select('state_json')\<close> returns it, and
  the \<^verbatim>\<open>{ data, error }\<close> object of a query. \<^verbatim>\<open>loadState\<close> hands the payload
  on as an \<^verbatim>\<open>AppState\<close> without looking into it.
\<close>

record ('task, 'att) StateRow =
  state_json :: "('task, 'att) AppState option"

record ('task, 'att) SingleResponse =
  data :: "('task, 'att) StateRow option"
  error :: "string option"

text \<open>
  \<^verbatim>\<open>loadMasterState\<close> reads the payload of each row field by field and guards
  every collection with \<^verbatim>\<open>|| []\<close>, so in the rows it folds over any collection may be
  missing.
\<close>

record ('task, 'att) StoredState =
  stored_users :: "User list option"
  stored_tasks :: "'task list option"
  stored_records :: "ProgressRecord list option"
  stored_messages :: "'att Message list option"
  stored_groups :: "'att Group list option"
  stored_statuses :: "'att StatusUpdate list option"
  stored_currentUser :: "User option"

record ('task, 'att) MasterRow =
  master_state_json :: "('task, 'att) StoredState option"

record ('task, 'att) AllResponse =
  all_data :: "('task, 'att) MasterRow list option"
  all_error :: "string option"

text \<open>
  The client that \<^verbatim>\<open>createClient\<close> returns, by what each call of the sources answers:
  \<^verbatim>\<open>from('app_state').select('state_json').eq('id', userId).single()\<close>,
  \<^verbatim>\<open>from('app_state').select('state_json')\<close>,
  \<^verbatim>\<open>from('app_state').upsert({ id, state_json }, { onConflict: 'id' })\<close> and
  \<^verbatim>\<open>auth.signOut()\<close>.
\<close>

record ('task, 'att) SupabaseClient =
  select_single :: "string \<Rightarrow> ('task, 'att) SingleResponse outcome"
  select_all :: "('task, 'att) AllResponse outcome"
  upsert :: "string \<Rightarrow> ('task, 'att) AppState \<Rightarrow> unit outcome"
  auth_signOut :: "unit outcome"

text \<open>What a call does to the world outside its result, in the order it happens.\<close>

datatype ('task, 'att) event =
    CloudSelect string
  | CloudSelectAll
  | CloudUpsert string "('task, 'att) AppState"
  | AuthSignOut
  | LocalGet string
  | LocalSet string string
  | LocalRemove string
  | ConsoleError string

section \<open>\<^verbatim>\<open>src/services/storage.ts\<close>\<close>

text \<open>
  \<^verbatim>\<open>process.env.SUPABASE_URL || ''\<close>, and the module-level handle
  \<^verbatim>\<open>supabase\<close>: a client when both values are non-empty, \<^verbatim>\<open>null\<close> otherwise.
\<close>

definition env_or_empty :: "string option \<Rightarrow> string" where
  "env_or_empty v = (case v of None \<Rightarrow> [] | Some s \<Rightarrow> s)"

definition supabase ::
  "string option \<Rightarrow> string option \<Rightarrow> ('task, 'att) SupabaseClient
     \<Rightarrow> ('task, 'att) SupabaseClient option" where
  "supabase SUPABASE_URL SUPABASE_KEY createClient =
     (let supabaseUrl = env_or_empty SUPABASE_URL; supabaseKey = env_or_empty SUPABASE_KEY
      in if supabaseUrl \<noteq> [] \<and> supabaseKey \<noteq> [] then Some createClient else None)"

definition isCloudEnabled :: "('task, 'att) SupabaseClient option \<Rightarrow> bool" where
  "isCloudEnabled sb = (sb \<noteq> None)"

text \<open>The template string \<^verbatim>\<open>`${STORAGE_KEY}_${userId}`\<close>.\<close>

definition userKey :: "'task Constants \<Rightarrow> string \<Rightarrow> string" where
  "userKey K uid = STORAGE_KEY K @ ''_'' @ uid"

text \<open>The object literal that \<^verbatim>\<open>loadState\<close> and \<^verbatim>\<open>loadMasterState\<close> both write.\<close>

definition defaultState :: "'task Constants \<Rightarrow> ('task, 'att) AppState" where
  "defaultState K =
     \<lparr> users = INITIAL_USERS K, tasks = INITIAL_TASKS K, records = [], messages = [],
       groups = [], statuses = [], currentUser = None \<rparr>"

text \<open>
  \<^verbatim>\<open>loadState\<close>, step 1: the cloud, entered when \<^verbatim>\<open>isCloudEnabled()\<close> holds,
  that is when the handle is a client, and \<^verbatim>\<open>userId\<close> is not the empty string. The
  result is the payload that the function returns from inside the \<^verbatim>\<open>try\<close>, or
  \<open>None\<close> when control reaches step 2. The \<^verbatim>\<open>error\<close> of the answer is not looked
  at.
\<close>

definition loadState_cloud ::
  "('task, 'att) SupabaseClient option \<Rightarrow> string
     \<Rightarrow> ('task, 'att) AppState option \<times> ('task, 'att) event list" where
  "loadState_cloud sb uid =
     (case sb of
        None \<Rightarrow> (None, [])
      | Some client \<Rightarrow>
          if uid = [] then (None, [])
          else (case select_single client uid of
                  Throws \<Rightarrow>
                    (None, [CloudSelect uid, ConsoleError ''Cloud fetch failed for user:''])
                | Returns r \<Rightarrow>
                    (case data r of
                       None \<Rightarrow> (None, [CloudSelect uid])
                     | Some d \<Rightarrow>
                         (case state_json d of
                            None \<Rightarrow> (None, [CloudSelect uid])
                          | Some payload \<Rightarrow> (Some payload, [CloudSelect uid])))))"

text \<open>
  Step 2: local storage. \<^verbatim>\<open>getItem\<close> is called before and outside the
  \<^verbatim>\<open>try\<close>, so when it throws the function throws (first component \<open>Throws\<close>).
  \<^verbatim>\<open>if (saved)\<close> is false for \<^verbatim>\<open>null\<close> and for the empty string. The
  exception of \<^verbatim>\<open>JSON.parse\<close> is caught and logged. \<open>Returns None\<close> is for control
  reaching step 3.
\<close>

definition loadState_local ::
  "'task Constants \<Rightarrow> ('task, 'att) JSON \<Rightarrow> string \<Rightarrow> localStorage
     \<Rightarrow> ('task, 'att) AppState option outcome \<times> ('task, 'att) event list" where
  "loadState_local K J uid ls =
     (case getItem ls (userKey K uid) of
        Throws \<Rightarrow> (Throws, [LocalGet (userKey K uid)])
      | Returns None \<Rightarrow> (Returns None, [LocalGet (userKey K uid)])
      | Returns (Some saved) \<Rightarrow>
          if saved = [] then (Returns None, [LocalGet (userKey K uid)])
          else (case JSON_parse J saved of
                  Throws \<Rightarrow>
                    (Returns None,
                     [LocalGet (userKey K uid), ConsoleError ''Local storage parse failed:''])
                | Returns parsed \<Rightarrow> (Returns (Some parsed), [LocalGet (userKey K uid)])))"

text \<open>
  \<^verbatim>\<open>loadState\<close>: the three steps in order; step 3 is the fresh state. The first
  component says how the call ends: \<open>Returns\<close> with the state, or \<open>Throws\<close> (the
  promise rejects). Of the three calls that can throw, the query and \<^verbatim>\<open>JSON.parse\<close>
  are inside a \<^verbatim>\<open>try\<close> whose \<^verbatim>\<open>catch\<close> only logs; \<^verbatim>\<open>getItem\<close> is not.
\<close>

definition loadState ::
  "'task Constants \<Rightarrow> ('task, 'att) JSON \<Rightarrow> ('task, 'att) SupabaseClient option
     \<Rightarrow> string \<Rightarrow> localStorage
     \<Rightarrow> ('task, 'att) AppState outcome \<times> ('task, 'att) event list" where
  "loadState K J sb uid ls =
     (case loadState_cloud sb uid of
        (Some payload, t) \<Rightarrow> (Returns payload, t)
      | (None, t) \<Rightarrow>
          (case loadState_local K J uid ls of
             (Throws, t') \<Rightarrow> (Throws, t @ t')
           | (Returns (Some parsed), t') \<Rightarrow> (Returns parsed, t @ t')
           | (Returns None, t') \<Rightarrow> (Returns (defaultState K), t @ t')))"

text \<open>
  \<^verbatim>\<open>saveState\<close>: nothing for an empty \<^verbatim>\<open>userId\<close>; otherwise
  \<^verbatim>\<open>JSON.stringify\<close> and the local write, both before and outside the
  \<^verbatim>\<open>try\<close>, so when either throws the function throws and the upsert is not
  attempted; then the upsert when the cloud is enabled, whose exception is caught and
  logged. The result is how the call ends, the local storage after it, and what it did.
\<close>

definition saveState ::
  "'task Constants \<Rightarrow> ('task, 'att) JSON \<Rightarrow> ('task, 'att) SupabaseClient option
     \<Rightarrow> string \<Rightarrow> ('task, 'att) AppState \<Rightarrow> localStorage
     \<Rightarrow> unit outcome \<times> localStorage \<times> ('task, 'att) event list" where
  "saveState K J sb uid state ls =
     (if uid = [] then (Returns (), ls, [])
      else
        (case JSON_stringify J state of
           Throws \<Rightarrow> (Throws, ls, [])
         | Returns text \<Rightarrow>
             (case setItem ls (userKey K uid) text of
                Throws \<Rightarrow> (Throws, ls, [LocalSet (userKey K uid) text])
              | Returns ls' \<Rightarrow>
                  (case sb of
                     None \<Rightarrow> (Returns (), ls', [LocalSet (userKey K uid) text])
                   | Some client \<Rightarrow>
                       (case upsert client uid state of
                          Throws \<Rightarrow>
                            (Returns (), ls',
                             [LocalSet (userKey K uid) text, CloudUpsert uid state,
                              ConsoleError ''Cloud sync failed for user:''])
                        | Returns _ \<Rightarrow>
                            (Returns (), ls',
                             [LocalSet (userKey K uid) text, CloudUpsert uid state]))))))"

text \<open>
  \<^verbatim>\<open>signOut\<close>: neither the awaited \<^verbatim>\<open>auth.signOut()\<close> nor
  \<^verbatim>\<open>removeItem\<close> is inside a \<^verbatim>\<open>try\<close>. When the first throws, the function
  throws before it reaches \<^verbatim>\<open>removeItem\<close>; when \<^verbatim>\<open>removeItem\<close> throws, the
  function throws and nothing was removed.
\<close>

definition signOut_local ::
  "'task Constants \<Rightarrow> localStorage \<Rightarrow> ('task, 'att) event list
     \<Rightarrow> unit outcome \<times> localStorage \<times> ('task, 'att) event list" where
  "signOut_local K ls t =
     (case removeItem ls (STORAGE_KEY K) of
        Throws \<Rightarrow> (Throws, ls, t @ [LocalRemove (STORAGE_KEY K)])
      | Returns ls' \<Rightarrow> (Returns (), ls', t @ [LocalRemove (STORAGE_KEY K)]))"

definition signOut ::
  "'task Constants \<Rightarrow> ('task, 'att) SupabaseClient option \<Rightarrow> localStorage
     \<Rightarrow> unit outcome \<times> localStorage \<times> ('task, 'att) event list" where
  "signOut K sb ls =
     (case sb of
        None \<Rightarrow> signOut_local K ls []
      | Some client \<Rightarrow>
          (case auth_signOut client of
             Throws \<Rightarrow> (Throws, ls, [AuthSignOut])
           | Returns _ \<Rightarrow> signOut_local K ls [AuthSignOut]))"

text \<open>
  The pieces of JavaScript that \<^verbatim>\<open>loadMasterState\<close> uses. \<^verbatim>\<open>e || []\<close> on a
  collection that may be missing; a \<^verbatim>\<open>Map\<close> as the list of its entries in insertion
  order, where \<^verbatim>\<open>set\<close> on a key that is there replaces the value and keeps the place,
  and on a new key adds the entry at the end; \<^verbatim>\<open>new Map(entries)\<close>, which sets the
  entries one after the other; \<^verbatim>\<open>Array.from(m.values())\<close>.
\<close>

definition or_empty :: "'a list option \<Rightarrow> 'a list" where
  "or_empty e = (case e of None \<Rightarrow> [] | Some xs \<Rightarrow> xs)"

fun Map_set :: "('k \<times> 'v) list \<Rightarrow> 'k \<Rightarrow> 'v \<Rightarrow> ('k \<times> 'v) list" where
  "Map_set [] k v = [(k, v)]"
| "Map_set ((k', v') # m) k v =
     (if k' = k then (k, v) # m else (k', v') # Map_set m k v)"

definition new_Map :: "('k \<times> 'v) list \<Rightarrow> ('k \<times> 'v) list" where
  "new_Map entries = foldl (\<lambda>m (k, v). Map_set m k v) [] entries"

definition Map_values :: "('k \<times> 'v) list \<Rightarrow> 'v list" where
  "Map_values m = map snd m"

text \<open>The callback of \<^verbatim>\<open>data.reduce\<close>.\<close>

definition mergeRow ::
  "('task, 'att) AppState \<Rightarrow> ('task, 'att) MasterRow \<Rightarrow> ('task, 'att) AppState" where
  "mergeRow acc row =
     (case master_state_json row of
        None \<Rightarrow> acc
      | Some userState \<Rightarrow>
          acc\<lparr> users := users acc @
                  (case stored_currentUser userState of None \<Rightarrow> [] | Some u \<Rightarrow> [u]),
               records := records acc @ or_empty (stored_records userState),
               messages := messages acc @ or_empty (stored_messages userState),
               statuses := statuses acc @ or_empty (stored_statuses userState),
               groups := Map_values (new_Map (map (\<lambda>g. (Group_id g, g))
                           (groups acc @ or_empty (stored_groups userState)))) \<rparr>)"

text \<open>
  \<^verbatim>\<open>loadMasterState\<close>: the default state when the cloud is off, when the query
  throws, and when it answers with an error or without data; otherwise the fold of the
  rows from the default state.
\<close>

definition loadMasterState ::
  "'task Constants \<Rightarrow> ('task, 'att) SupabaseClient option
     \<Rightarrow> ('task, 'att) AppState outcome \<times> ('task, 'att) event list" where
  "loadMasterState K sb =
     (case sb of
        None \<Rightarrow> (Returns (defaultState K), [])
      | Some client \<Rightarrow>
          (case select_all client of
             Throws \<Rightarrow>
               (Returns (defaultState K), [CloudSelectAll, ConsoleError ''Master load failed''])
           | Returns r \<Rightarrow>
               (case all_data r of
                  None \<Rightarrow> (Returns (defaultState K), [CloudSelectAll])
                | Some rows \<Rightarrow>
                    if all_error r \<noteq> None then (Returns (defaultState K), [CloudSelectAll])
                    else (Returns (foldl mergeRow (defaultState K) rows), [CloudSelectAll]))))"

section \<open>\<^verbatim>\<open>src/App.tsx\<close>: the state updaters\<close>

text \<open>
  Each handler passes a function from the previous state to \<^verbatim>\<open>setState\<close>; that
  function is what is modelled, on a state that may be \<^verbatim>\<open>null\<close>. The results of
  \<^verbatim>\<open>Math.random().toString(36).substr(2, 9)\<close> and of
  \<^verbatim>\<open>new Date().toISOString()\<close> are the parameters \<open>newId\<close> and \<open>now\<close>.

  \<^verbatim>\<open>Array.prototype.findIndex\<close>: the first index whose element passes the test, or
  \<open>-1\<close>.
\<close>

fun findIndex :: "('a \<Rightarrow> bool) \<Rightarrow> 'a list \<Rightarrow> int" where
  "findIndex P [] = - 1"
| "findIndex P (x # xs) =
     (if P x then 0 else (let i = findIndex P xs in if i = - 1 then - 1 else i + 1))"

text \<open>
  \<^verbatim>\<open>e || d\<close> where \<open>d\<close> is the only falsy value of the type of \<open>e\<close> besides
  \<^verbatim>\<open>undefined\<close> (\<open>0\<close> for a number, \<open>''\<close> for a string), or where every value of the
  type is truthy (an array).
\<close>

definition or_else :: "'a option \<Rightarrow> 'a \<Rightarrow> 'a" where
  "or_else e d = (case e of None \<Rightarrow> d | Some v \<Rightarrow> v)"

text \<open>
  The object spread \<^verbatim>\<open>{ ...r, ...recordUpdate }\<close>: each property that the update has
  replaces the one of \<open>r\<close>, and every other property of \<open>r\<close> stays.
\<close>

definition spreadProp :: "'a option \<Rightarrow> 'a \<Rightarrow> 'a" where
  "spreadProp new old = (case new of None \<Rightarrow> old | Some v \<Rightarrow> v)"

definition spreadRecord :: "ProgressRecord \<Rightarrow> RecordUpdate \<Rightarrow> ProgressRecord" where
  "spreadRecord r u =
     \<lparr> Record_id = spreadProp (upd_id u) (Record_id r),
       userId = (case upd_userId u of None \<Rightarrow> userId r | Some v \<Rightarrow> Some v),
       date = (case upd_date u of None \<Rightarrow> date r | Some v \<Rightarrow> Some v),
       tasksCompleted = spreadProp (upd_tasksCompleted u) (tasksCompleted r),
       timeSpentMinutes = spreadProp (upd_timeSpentMinutes u) (timeSpentMinutes r),
       remarks = spreadProp (upd_remarks u) (remarks r),
       dayJournal = spreadProp (upd_dayJournal u) (dayJournal r),
       mood = spreadProp (upd_mood u) (mood r) \<rparr>"

definition newRecord :: "string \<Rightarrow> RecordUpdate \<Rightarrow> ProgressRecord" where
  "newRecord newId recordUpdate =
     \<lparr> Record_id = newId,
       userId = upd_userId recordUpdate,
       date = upd_date recordUpdate,
       tasksCompleted = or_else (upd_tasksCompleted recordUpdate) [],
       timeSpentMinutes = or_else (upd_timeSpentMinutes recordUpdate) 0,
       remarks = or_else (upd_remarks recordUpdate) [],
       dayJournal = or_else (upd_dayJournal recordUpdate) [],
       mood = or_else (upd_mood recordUpdate) [] \<rparr>"

text \<open>The test that \<^verbatim>\<open>handleUpdateRecord\<close> gives to \<^verbatim>\<open>findIndex\<close>.\<close>

definition sameKey :: "RecordUpdate \<Rightarrow> ProgressRecord \<Rightarrow> bool" where
  "sameKey recordUpdate r \<longleftrightarrow>
     userId r = upd_userId recordUpdate \<and> date r = upd_date recordUpdate"

definition handleUpdateRecord ::
  "string \<Rightarrow> RecordUpdate \<Rightarrow> ('task, 'att) AppState option \<Rightarrow> ('task, 'att) AppState option"
  where
  "handleUpdateRecord newId recordUpdate prev =
     (case prev of
        None \<Rightarrow> None
      | Some p \<Rightarrow>
          (let existingIdx = findIndex (sameKey recordUpdate) (records p)
           in if existingIdx > - 1
              then Some (p\<lparr> records := (records p)
                             [nat existingIdx :=
                                spreadRecord (records p ! nat existingIdx) recordUpdate] \<rparr>)
              else Some (p\<lparr> records := records p @ [newRecord newId recordUpdate] \<rparr>)))"

text \<open>
  \<^verbatim>\<open>String.prototype.trim\<close> on strings of code units below 256: the white space and
  line terminators of ECMAScript in that range are TAB, LF, VT, FF, CR, SP and NBSP.
\<close>

definition isWhiteSpace :: "char \<Rightarrow> bool" where
  "isWhiteSpace c \<longleftrightarrow>
     c \<in> {CHR 0x09, CHR 0x0A, CHR 0x0B, CHR 0x0C, CHR 0x0D, CHR 0x20, CHR 0xA0}"

definition trim :: "string \<Rightarrow> string" where
  "trim s = rev (dropWhile isWhiteSpace (rev (dropWhile isWhiteSpace s)))"

definition handleSendMessage ::
  "string \<Rightarrow> string \<Rightarrow> string \<Rightarrow> string \<Rightarrow> 'att option
     \<Rightarrow> ('task, 'att) AppState option \<Rightarrow> ('task, 'att) AppState option" where
  "handleSendMessage newId now receiverId' content' attachment' prev =
     (case prev of
        None \<Rightarrow> None
      | Some p \<Rightarrow>
          (case currentUser p of
             None \<Rightarrow> Some p
           | Some cu \<Rightarrow>
               if trim content' = [] \<and> attachment' = None then Some p
               else Some (p\<lparr> messages := messages p @
                            [\<lparr> Message_id = newId, senderId = User_id cu,
                               receiverId = receiverId', content = content',
                               attachment = attachment', timestamp = now \<rparr>] \<rparr>)))"

section \<open>Notions used in the statements\<close>

text \<open>
  What a row of the admin query contributes: its embedded current user and its groups;
  whether it has a payload at all.
\<close>

definition hasPayload :: "('task, 'att) MasterRow \<Rightarrow> bool" where
  "hasPayload row \<longleftrightarrow> master_state_json row \<noteq> None"

definition row_currentUser :: "('task, 'att) MasterRow \<Rightarrow> User list" where
  "row_currentUser row =
     (case master_state_json row of
        None \<Rightarrow> []
      | Some userState \<Rightarrow>
          (case stored_currentUser userState of None \<Rightarrow> [] | Some u \<Rightarrow> [u]))"

definition row_groups :: "('task, 'att) MasterRow \<Rightarrow> 'att Group list" where
  "row_groups row =
     (case master_state_json row of
        None \<Rightarrow> []
      | Some userState \<Rightarrow> or_empty (stored_groups userState))"

text \<open>The entry \<^verbatim>\<open>[g.id, g]\<close>, and the deduplication that the reducer applies.\<close>

definition groupEntry :: "'att Group \<Rightarrow> string \<times> 'att Group" where
  "groupEntry g = (Group_id g, g)"

definition dedupGroups :: "'att Group list \<Rightarrow> 'att Group list" where
  "dedupGroups gs = Map_values (new_Map (map groupEntry gs))"

abbreviation (input) Map_step :: "('k \<times> 'v) list \<Rightarrow> 'k \<times> 'v \<Rightarrow> ('k \<times> 'v) list" where
  "Map_step \<equiv> (\<lambda>m (k, v). Map_set m k v)"

text \<open>The key of a progress record, and the invariant of the \<^verbatim>\<open>records\<close> list.\<close>

definition recordKey :: "ProgressRecord \<Rightarrow> string option \<times> string option" where
  "recordKey r = (userId r, date r)"

definition uniqueKeys :: "ProgressRecord list \<Rightarrow> bool" where
  "uniqueKeys rs \<longleftrightarrow> distinct (map recordKey rs)"

section \<open>Example values\<close>

definition demoUser :: "string \<Rightarrow> User" where
  "demoUser i = \<lparr> User_id = i, User_name = ''Asha'', username = ''asha@example.org'',
                  role = FRIEND, joinedAt = ''2024-02-01'' \<rparr>"

definition demoConstants :: "string Constants" where
  "demoConstants =
     \<lparr> STORAGE_KEY = ''b_progress_state'',
       INITIAL_USERS = [\<lparr> User_id = ''admin-1'', User_name = ''Coach'', username = ''admin'',
                          role = ADMIN, joinedAt = ''2024-01-01'' \<rparr>],
       INITIAL_TASKS = [''Reading''] \<rparr>"

definition demoGroup :: "string \<Rightarrow> string Group" where
  "demoGroup n = \<lparr> Group_id = ''g1'', Group_name = n, description = [], memberIds = [],
                   posts = [] \<rparr>"

definition demoState :: "string \<Rightarrow> (string, string) AppState" where
  "demoState n = (defaultState demoConstants)\<lparr> groups := [demoGroup n] \<rparr>"

definition demoJSON :: "(string, string) JSON" where
  "demoJSON =
     \<lparr> JSON_stringify = (\<lambda>s. Returns (''{'' @ concat (map Group_name (groups s)) @ ''}'')),
       JSON_parse = (\<lambda>t. if t = ''{B}'' then Returns (demoState ''B'') else Throws) \<rparr>"

text \<open>
  A local storage whose calls all succeed, one whose reads throw, and one whose writes
  throw.
\<close>

definition demoStorage :: "(string \<rightharpoonup> string) \<Rightarrow> localStorage" where
  "demoStorage m =
     \<lparr> items = m, getItem_throws = (\<lambda>key. False), setItem_throws = (\<lambda>key v. False),
       removeItem_throws = (\<lambda>key. False) \<rparr>"


definition fullStorage :: localStorage where
  "fullStorage = (demoStorage Map.empty)\<lparr> setItem_throws := (\<lambda>key v. True) \<rparr>"

definition demoClient ::
  "(string, string) SingleResponse outcome \<Rightarrow> (string, string) AllResponse outcome
     \<Rightarrow> unit outcome \<Rightarrow> (string, string) SupabaseClient" where
  "demoClient single all up =
     \<lparr> select_single = (\<lambda>uid. single), select_all = all, upsert = (\<lambda>uid s. up),
       auth_signOut = Returns () \<rparr>"

definition demoSingle :: "string \<Rightarrow> (string, string) SingleResponse" where
  "demoSingle n = \<lparr> data = Some \<lparr> state_json = Some (demoState n) \<rparr>, error = None \<rparr>"

definition demoRow :: "string \<Rightarrow> string \<Rightarrow> (string, string) MasterRow" where
  "demoRow i n =
     \<lparr> master_state_json = Some
         \<lparr> stored_users = Some [demoUser ''x'', demoUser ''y''], stored_tasks = Some [''Running''],
           stored_records = None, stored_messages = None,
           stored_groups = Some [demoGroup n], stored_statuses = None,
           stored_currentUser = Some (demoUser i) \<rparr> \<rparr>"

definition nullRow :: "(string, string) MasterRow" where
  "nullRow = \<lparr> master_state_json = None \<rparr>"

definition demoAll :: "(string, string) MasterRow list \<Rightarrow> (string, string) AllResponse" where
  "demoAll rows = \<lparr> all_data = Some rows, all_error = None \<rparr>"

definition demoRecord :: ProgressRecord where
  "demoRecord =
     \<lparr> Record_id = ''r1'', userId = Some ''u1'', date = Some ''2024-03-01'',
       tasksCompleted = [], timeSpentMinutes = 30, remarks = [], dayJournal = [],
       mood = [] \<rparr>"

definition demoUpdate :: "string \<Rightarrow> RecordUpdate" where
  "demoUpdate d =
     \<lparr> upd_id = None, upd_userId = Some ''u1'', upd_date = Some d,
       upd_tasksCompleted = None, upd_timeSpentMinutes = None, upd_remarks = Some ''done'',
       upd_dayJournal = None, upd_mood = None \<rparr>"

section \<open>Loading and saving one user's state\<close>

lemma isCloudEnabled_iff: "isCloudEnabled sb \<longleftrightarrow> (\<exists>client. sb = Some client)"
  by (simp add: isCloudEnabled_def)

lemma supabase_configured:
  "isCloudEnabled (supabase url key c) \<longleftrightarrow> env_or_empty url \<noteq> [] \<and> env_or_empty key \<noteq> []"
  by (simp add: isCloudEnabled_def supabase_def Let_def)

text \<open>
  Claim C1. When the remote store is configured, the user id is not empty and the query
  for that id answers with a row whose \<^verbatim>\<open>state_json\<close> is not \<^verbatim>\<open>null\<close>,
  \<^verbatim>\<open>loadState\<close> returns exactly that payload. The only thing it does on the way is
  the one query: local storage is not read, and the result is the same whatever local
  storage holds and whatever \<^verbatim>\<open>JSON.parse\<close> would make of it, so nothing is compared
  with the remote payload.
\<close>

theorem loadState_remote_wins:
  assumes "isCloudEnabled sb" and "sb = Some client" and "uid \<noteq> []"
    and "select_single client uid = Returns r"
    and "data r = Some d" and "state_json d = Some payload"
  shows "loadState K J sb uid ls = (Returns payload, [CloudSelect uid])
         \<and> (\<forall>key. LocalGet key \<notin> set (snd (loadState K J sb uid ls)))
         \<and> loadState K J sb uid ls = loadState K J' sb uid ls'"
  using assms by (simp add: loadState_def loadState_cloud_def)

theorem loadState_remote_wins_witness:
  "isCloudEnabled (Some (demoClient (Returns (demoSingle ''A'')) Throws Throws))
   \<and> ''u1'' \<noteq> []
   \<and> select_single (demoClient (Returns (demoSingle ''A'')) Throws Throws) ''u1''
       = Returns (demoSingle ''A'')
   \<and> data (demoSingle ''A'') = Some \<lparr> state_json = Some (demoState ''A'') \<rparr>
   \<and> getItem (demoStorage [''b_progress_state_u1'' \<mapsto> ''{B}''])
        (userKey demoConstants ''u1'') = Returns (Some ''{B}'')
   \<and> JSON_parse demoJSON ''{B}'' = Returns (demoState ''B'')
   \<and> loadState demoConstants demoJSON
        (Some (demoClient (Returns (demoSingle ''A'')) Throws Throws))
        ''u1'' (demoStorage [''b_progress_state_u1'' \<mapsto> ''{B}''])
      = (Returns (demoState ''A''), [CloudSelect ''u1''])"
  using loadState_remote_wins [of "Some (demoClient (Returns (demoSingle ''A'')) Throws Throws)"
      "demoClient (Returns (demoSingle ''A'')) Throws Throws"
      "''u1''" "demoSingle ''A''"
      "\<lparr> state_json = Some (demoState ''A'') \<rparr>" "demoState ''A''"
      demoConstants demoJSON "demoStorage [''b_progress_state_u1'' \<mapsto> ''{B}'']"]
  by (simp add: isCloudEnabled_def demoClient_def demoSingle_def getItem_def userKey_def
        demoConstants_def demoJSON_def demoStorage_def)


lemma loadState_throws:
  assumes "fst (loadState_cloud sb uid) = None" and "getItem ls (userKey K uid) = Throws"
  shows "fst (loadState K J sb uid ls) = Throws"
proof -
  from assms(2) have "fst (loadState_local K J uid ls) = Throws"
    by (simp add: loadState_local_def)
  with assms(1) show ?thesis
    by (cases "loadState_cloud sb uid"; cases "loadState_local K J uid ls")
       (simp add: loadState_def)
qed





text \<open>
  Claim C3, as amended. For every user id that is not empty and every state,
  \<^verbatim>\<open>saveState\<close> serializes the state and, as the first thing it does to the world,
  calls the write of that string to the local cache under the per-user key, whether or
  not the remote is configured. When the serialization and the write succeed, the string
  is stored under that key and \<^verbatim>\<open>saveState\<close> returns normally, also when the
  upsert throws. For the empty user id it returns at once and writes nothing.
\<close>

theorem saveState_local_write:
  "(uid \<noteq> [] \<and> JSON_stringify J state = Returns blob
      \<longrightarrow> (\<exists>t. snd (snd (saveState K J sb uid state ls))
                 = LocalSet (userKey K uid) blob # t))
   \<and> (uid \<noteq> [] \<and> JSON_stringify J state = Returns blob
        \<and> setItem ls (userKey K uid) blob = Returns ls'
      \<longrightarrow> fst (saveState K J sb uid state ls) = Returns ()
          \<and> fst (snd (saveState K J sb uid state ls)) = ls'
          \<and> items (fst (snd (saveState K J sb uid state ls))) (userKey K uid) = Some blob)
   \<and> saveState K J sb [] state ls = (Returns (), ls, [])"
  by (auto simp: saveState_def setItem_def split: option.splits outcome.splits if_splits)

theorem saveState_local_write_witness:
  "''u1'' \<noteq> []
   \<and> JSON_stringify demoJSON (demoState ''A'') = Returns ''{A}''
   \<and> setItem (demoStorage Map.empty) (userKey demoConstants ''u1'') ''{A}''
       = Returns (demoStorage [''b_progress_state_u1'' \<mapsto> ''{A}''])
   \<and> upsert (demoClient Throws Throws Throws) ''u1'' (demoState ''A'') = Throws
   \<and> saveState demoConstants demoJSON (Some (demoClient Throws Throws Throws))
        ''u1'' (demoState ''A'') (demoStorage Map.empty)
       = (Returns (), demoStorage [''b_progress_state_u1'' \<mapsto> ''{A}''],
          [LocalSet ''b_progress_state_u1'' ''{A}'', CloudUpsert ''u1'' (demoState ''A''),
           ConsoleError ''Cloud sync failed for user:''])"
proof -
  have s: "JSON_stringify demoJSON (demoState ''A'') = Returns ''{A}''"
    by (simp add: demoJSON_def demoState_def demoGroup_def)
  have k: "userKey demoConstants ''u1'' = ''b_progress_state_u1''"
    by (simp add: userKey_def demoConstants_def)
  have w': "setItem (demoStorage Map.empty) ''b_progress_state_u1'' ''{A}''
              = Returns (demoStorage [''b_progress_state_u1'' \<mapsto> ''{A}''])"
    by (simp add: setItem_def demoStorage_def)
  have w: "setItem (demoStorage Map.empty) (userKey demoConstants ''u1'') ''{A}''
             = Returns (demoStorage [''b_progress_state_u1'' \<mapsto> ''{A}''])"
    unfolding k by (rule w')
  have u: "upsert (demoClient Throws Throws Throws) ''u1'' (demoState ''A'') = Throws"
    by (simp add: demoClient_def)
  have e: "snd (snd (saveState demoConstants demoJSON (Some (demoClient Throws Throws Throws))
                       ''u1'' (demoState ''A'') (demoStorage Map.empty)))
             = [LocalSet ''b_progress_state_u1'' ''{A}'', CloudUpsert ''u1'' (demoState ''A''),
                ConsoleError ''Cloud sync failed for user:'']"
    by (simp add: saveState_def s k w' u)
  from saveState_local_write [of "''u1''" demoJSON "demoState ''A''" "''{A}''" demoConstants
         "Some (demoClient Throws Throws Throws)" "demoStorage Map.empty"
         "demoStorage [''b_progress_state_u1'' \<mapsto> ''{A}'']"] s w
  have "fst (saveState demoConstants demoJSON (Some (demoClient Throws Throws Throws))
               ''u1'' (demoState ''A'') (demoStorage Map.empty)) = Returns ()"
    and "fst (snd (saveState demoConstants demoJSON (Some (demoClient Throws Throws Throws))
               ''u1'' (demoState ''A'') (demoStorage Map.empty)))
          = demoStorage [''b_progress_state_u1'' \<mapsto> ''{A}'']"
    by simp_all
  with e s w u show ?thesis by (simp add: prod_eq_iff)
qed

text \<open>
  The claim as it was stated fails in two places. At the empty user id the write is
  skipped: nothing is stored and nothing happens. And the call can fail the caller: when
  the local write throws, which it does outside the \<^verbatim>\<open>try\<close>, the function throws, and
  the upsert is not attempted although the remote is configured.
\<close>

theorem saveState_skip_and_throw_counterexample:
  "saveState demoConstants demoJSON None [] (demoState ''A'') (demoStorage Map.empty)
       = (Returns (), demoStorage Map.empty, [])
   \<and> items (fst (snd (saveState demoConstants demoJSON None [] (demoState ''A'')
                         (demoStorage Map.empty)))) (userKey demoConstants []) = None
   \<and> setItem fullStorage (userKey demoConstants ''u1'') ''{A}'' = Throws
   \<and> saveState demoConstants demoJSON (Some (demoClient Throws Throws (Returns ())))
        ''u1'' (demoState ''A'') fullStorage
       = (Throws, fullStorage, [LocalSet ''b_progress_state_u1'' ''{A}''])"
  by (simp add: saveState_def setItem_def fullStorage_def demoStorage_def demoJSON_def
        demoState_def demoGroup_def userKey_def demoConstants_def)

text \<open>
  What was saved is what is loaded: after a \<^verbatim>\<open>saveState\<close> for a user that
  returned, \<^verbatim>\<open>loadState\<close> for the same user, when the remote gives no payload and
  the read does not throw, returns what \<^verbatim>\<open>JSON.parse\<close> makes of the string that
  \<^verbatim>\<open>JSON.stringify\<close> produced, both calls using the same key.
\<close>

lemma saveState_then_loadState:
  assumes "uid \<noteq> []" and "fst (loadState_cloud sb' uid) = None"
    and "JSON_stringify J state = Returns blob" and "blob \<noteq> []"
    and "setItem ls (userKey K uid) blob = Returns ls'"
    and "getItem ls' (userKey K uid) \<noteq> Throws"
    and "JSON_parse J blob = Returns state'"
  shows "fst (snd (saveState K J sb uid state ls)) = ls'
         \<and> fst (loadState K J sb' uid ls') = Returns state'"
proof -
  have s: "fst (snd (saveState K J sb uid state ls)) = ls'"
    using assms(1,3,5)
    by (simp add: saveState_def split: option.splits outcome.splits)
  have "items ls' (userKey K uid) = Some blob"
    using assms(5) by (auto simp: setItem_def split: if_splits)
  with assms(6) have "getItem ls' (userKey K uid) = Returns (Some blob)"
    by (simp add: getItem_def split: if_splits)
  then have "fst (loadState_local K J uid ls') = Returns (Some state')"
    using assms(4,7) by (simp add: loadState_local_def)
  with assms(2) have "fst (loadState K J sb' uid ls') = Returns state'"
    by (cases "loadState_cloud sb' uid"; cases "loadState_local K J uid ls'")
       (simp add: loadState_def)
  with s show ?thesis by simp
qed

text \<open>
  Claim C10. \<^verbatim>\<open>signOut\<close> leaves every key of the local cache other than the global
  \<^verbatim>\<open>STORAGE_KEY\<close> as it was; in particular every per-user key
  \<^verbatim>\<open>STORAGE_KEY_userId\<close> keeps its value, so what \<^verbatim>\<open>saveState\<close> stored for a
  user is still there after signing out. When \<^verbatim>\<open>signOut\<close> returns, the global key
  is gone.
\<close>

lemma userKey_neq: "userKey K uid \<noteq> STORAGE_KEY K"
  by (simp add: userKey_def)

lemma signOut_items:
  "items (fst (snd (signOut K sb ls))) = items ls
   \<or> items (fst (snd (signOut K sb ls))) = (items ls)(STORAGE_KEY K := None)"
  by (simp add: signOut_def signOut_local_def removeItem_def
           split: option.splits outcome.splits)

lemma signOut_getItem_throws:
  "getItem_throws (fst (snd (signOut K sb ls))) = getItem_throws ls"
  by (simp add: signOut_def signOut_local_def removeItem_def
           split: option.splits outcome.splits)

lemma signOut_returned:
  "fst (signOut K sb ls) = Returns ()
     \<Longrightarrow> items (fst (snd (signOut K sb ls))) = (items ls)(STORAGE_KEY K := None)"
  by (simp add: signOut_def signOut_local_def removeItem_def
           split: option.splits outcome.splits if_splits)

lemma saveState_returned:
  assumes "uid \<noteq> []" and "JSON_stringify J state = Returns blob"
    and "fst (saveState K J sb uid state ls) = Returns ()"
  shows "items (fst (snd (saveState K J sb uid state ls))) (userKey K uid) = Some blob"
  using assms
  by (auto simp: saveState_def setItem_def split: option.splits outcome.splits if_splits)

theorem signOut_keeps_user_keys:
  "(\<forall>key. key \<noteq> STORAGE_KEY K \<longrightarrow>
       items (fst (snd (signOut K sb ls))) key = items ls key
       \<and> getItem (fst (snd (signOut K sb ls))) key = getItem ls key)
   \<and> (\<forall>uid. items (fst (snd (signOut K sb ls))) (userKey K uid) = items ls (userKey K uid)
           \<and> getItem (fst (snd (signOut K sb ls))) (userKey K uid)
             = getItem ls (userKey K uid))
   \<and> (\<forall>uid state sb' blob.
         uid \<noteq> [] \<and> JSON_stringify J state = Returns blob
         \<and> fst (saveState K J sb' uid state ls) = Returns () \<longrightarrow>
         items (fst (snd (signOut K sb (fst (snd (saveState K J sb' uid state ls))))))
           (userKey K uid) = Some blob)
   \<and> (fst (signOut K sb ls) = Returns () \<longrightarrow>
         items (fst (snd (signOut K sb ls))) (STORAGE_KEY K) = None)"
proof -
  have other: "key \<noteq> STORAGE_KEY K \<Longrightarrow> items (fst (snd (signOut K sb l))) key = items l key"
    for key l
    using signOut_items [of K sb l] by auto
  have read: "key \<noteq> STORAGE_KEY K \<Longrightarrow> getItem (fst (snd (signOut K sb l))) key = getItem l key"
    for key l
    using other [of key l] by (simp add: getItem_def signOut_getItem_throws)
  have saved: "uid \<noteq> [] \<Longrightarrow> JSON_stringify J state = Returns blob
                \<Longrightarrow> fst (saveState K J sb' uid state ls) = Returns ()
                \<Longrightarrow> items (fst (snd (signOut K sb (fst (snd (saveState K J sb' uid state ls))))))
                      (userKey K uid) = Some blob"
    for uid state sb' blob
    using other [OF userKey_neq, of "fst (snd (saveState K J sb' uid state ls))" uid]
      saveState_returned [of uid J state blob K sb' ls] by simp
  have gone: "fst (signOut K sb ls) = Returns ()
                \<Longrightarrow> items (fst (snd (signOut K sb ls))) (STORAGE_KEY K) = None"
    using signOut_returned [of K sb ls] by simp
  from other [of _ ls] read [of _ ls] saved gone userKey_neq [of K] show ?thesis
    by (intro conjI allI impI) auto
qed

theorem signOut_keeps_user_keys_witness:
  "''other'' \<noteq> STORAGE_KEY demoConstants
   \<and> items (fst (snd (signOut demoConstants (Some (demoClient Throws Throws Throws))
        (demoStorage [STORAGE_KEY demoConstants \<mapsto> ''{B}'', ''other'' \<mapsto> ''x'']))))
        ''other'' = Some ''x''
   \<and> ''u1'' \<noteq> []
   \<and> JSON_stringify demoJSON (demoState ''A'') = Returns ''{A}''
   \<and> fst (saveState demoConstants demoJSON None ''u1'' (demoState ''A'')
            (demoStorage [STORAGE_KEY demoConstants \<mapsto> ''{B}'', ''other'' \<mapsto> ''x'']))
       = Returns ()
   \<and> items (fst (snd (signOut demoConstants
        (Some (demoClient Throws Throws Throws))
        (fst (snd (saveState demoConstants demoJSON None ''u1'' (demoState ''A'')
               (demoStorage [STORAGE_KEY demoConstants \<mapsto> ''{B}'', ''other'' \<mapsto> ''x''])))))))
        (userKey demoConstants ''u1'') = Some ''{A}''
   \<and> fst (signOut demoConstants (Some (demoClient Throws Throws Throws))
            (demoStorage [STORAGE_KEY demoConstants \<mapsto> ''{B}'', ''other'' \<mapsto> ''x'']))
       = Returns ()
   \<and> items (fst (snd (signOut demoConstants (Some (demoClient Throws Throws Throws))
        (demoStorage [STORAGE_KEY demoConstants \<mapsto> ''{B}'', ''other'' \<mapsto> ''x'']))))
        (STORAGE_KEY demoConstants) = None"
proof -
  let ?ls = "demoStorage [STORAGE_KEY demoConstants \<mapsto> ''{B}'', ''other'' \<mapsto> ''x'']"
  let ?sb = "Some (demoClient Throws Throws Throws)"
  have a: "''other'' \<noteq> STORAGE_KEY demoConstants"
    by (simp add: demoConstants_def)
  have b: "JSON_stringify demoJSON (demoState ''A'') = Returns ''{A}''"
    by (simp add: demoJSON_def demoState_def demoGroup_def)
  have c: "fst (saveState demoConstants demoJSON None ''u1'' (demoState ''A'') ?ls)
             = Returns ()"
    by (simp add: saveState_def b setItem_def demoStorage_def)
  have d: "fst (signOut demoConstants ?sb ?ls) = Returns ()"
    by (simp add: signOut_def signOut_local_def removeItem_def demoClient_def demoStorage_def)
  have e: "items ?ls ''other'' = Some ''x''"
    by (simp add: demoStorage_def demoConstants_def)
  from signOut_keeps_user_keys [of demoConstants ?sb ?ls demoJSON] a b c d e
  show ?thesis by auto
qed

section \<open>The admin aggregation\<close>

lemma loadMasterState_rows:
  assumes "sb = Some client" and "select_all client = Returns r"
    and "all_data r = Some rows" and "all_error r = None"
  shows "fst (loadMasterState K sb) = Returns (foldl mergeRow (defaultState K) rows)"
  using assms by (simp add: loadMasterState_def)

subsection \<open>The \<^verbatim>\<open>Map\<close> of entries\<close>

lemma Map_set_keys:
  "map fst (Map_set m k v) = (if k \<in> fst ` set m then map fst m else map fst m @ [k])"
  by (induction m k v rule: Map_set.induct) auto

lemma Map_set_key_set: "fst ` set (Map_set m k v) = insert k (fst ` set m)"
  by (induction m k v rule: Map_set.induct) auto

lemma Map_set_fresh: "k \<notin> fst ` set m \<Longrightarrow> Map_set m k v = m @ [(k, v)]"
  by (induction m k v rule: Map_set.induct) auto

lemma Map_set_distinct: "distinct (map fst m) \<Longrightarrow> distinct (map fst (Map_set m k v))"
  by (simp add: Map_set_keys)

lemma Map_set_map_of: "map_of (Map_set m k v) = (map_of m)(k \<mapsto> v)"
  by (induction m k v rule: Map_set.induct) auto

lemma Map_set_subset: "set (Map_set m k v) \<subseteq> insert (k, v) (set m)"
  by (induction m k v rule: Map_set.induct) auto

lemma foldl_Map_set_distinct:
  "distinct (map fst m) \<Longrightarrow> distinct (map fst (foldl Map_step m es))"
  by (induction es arbitrary: m) (auto simp: Map_set_distinct)

lemma foldl_Map_set_keys:
  "fst ` set (foldl Map_step m es) = fst ` set m \<union> fst ` set es"
proof (induction es arbitrary: m)
  case Nil
  show ?case by simp
next
  case (Cons e es)
  obtain k v where e: "e = (k, v)" by (cases e)
  from Cons [of "Map_set m k v"] e show ?case by (auto simp: Map_set_key_set)
qed

lemma foldl_Map_set_subset: "set (foldl Map_step m es) \<subseteq> set m \<union> set es"
proof (induction es arbitrary: m)
  case Nil
  show ?case by simp
next
  case (Cons e es)
  obtain k v where e: "e = (k, v)" by (cases e)
  from Cons [of "Map_set m k v"] Map_set_subset [of m k v] e show ?case by auto
qed

text \<open>Later entries win: the map holds, for each key, the last value set for it.\<close>

lemma foldl_Map_set_map_of:
  "map_of (foldl Map_step m es) = map_of m ++ map_of (rev es)"
proof (induction es arbitrary: m)
  case Nil
  show ?case by simp
next
  case (Cons e es)
  obtain k v where e: "e = (k, v)" by (cases e)
  have "map_of (foldl Map_step m (e # es)) = map_of (foldl Map_step (Map_set m k v) es)"
    using e by simp
  also have "\<dots> = map_of (Map_set m k v) ++ map_of (rev es)"
    by (rule Cons)
  also have "\<dots> = (map_of m)(k \<mapsto> v) ++ map_of (rev es)"
    by (simp only: Map_set_map_of)
  also have "\<dots> = map_of m ++ map_of (rev (e # es))"
    unfolding e by (rule ext) (simp add: map_add_def split: option.splits)
  finally show ?case .
qed

lemma foldl_Map_set_append:
  "distinct (map fst (m @ es)) \<Longrightarrow> foldl Map_step m es = m @ es"
proof (induction es arbitrary: m)
  case Nil
  show ?case by simp
next
  case (Cons e es)
  obtain k v where e: "e = (k, v)" by (cases e)
  from Cons.prems e have fresh: "k \<notin> fst ` set m" by auto
  from Cons.prems e have d: "distinct (map fst ((m @ [(k, v)]) @ es))" by auto
  from Cons.IH [OF d] fresh e show ?case by (simp add: Map_set_fresh)
qed

lemma new_Map_distinct: "distinct (map fst (new_Map es))"
  by (simp add: new_Map_def foldl_Map_set_distinct)

lemma new_Map_idem: "distinct (map fst m) \<Longrightarrow> new_Map m = m"
  by (simp add: new_Map_def foldl_Map_set_append)

lemma new_Map_append: "new_Map (new_Map es @ es') = new_Map (es @ es')"
proof -
  have "new_Map (new_Map es @ es') = foldl Map_step (new_Map (new_Map es)) es'"
    by (simp add: new_Map_def)
  also have "\<dots> = foldl Map_step (new_Map es) es'"
    by (simp add: new_Map_idem new_Map_distinct)
  also have "\<dots> = new_Map (es @ es')"
    by (simp add: new_Map_def)
  finally show ?thesis .
qed

subsection \<open>Groups\<close>

lemma groupEntry_eq: "(\<lambda>g. (Group_id g, g)) = groupEntry"
  by (simp add: groupEntry_def fun_eq_iff)

lemma new_Map_groupEntry: "map groupEntry (dedupGroups gs) = new_Map (map groupEntry gs)"
proof -
  have "set (new_Map (map groupEntry gs)) \<subseteq> groupEntry ` set gs"
    using foldl_Map_set_subset [of "[]" "map groupEntry gs"] by (simp add: new_Map_def)
  then have "\<forall>e \<in> set (new_Map (map groupEntry gs)). groupEntry (snd e) = e"
    by (auto simp: groupEntry_def)
  then show ?thesis
    by (simp add: dedupGroups_def Map_values_def map_idI)
qed

text \<open>Deduplicating an already deduplicated prefix again changes nothing.\<close>

lemma dedupGroups_append: "dedupGroups (dedupGroups gs @ gs') = dedupGroups (gs @ gs')"
  by (simp add: dedupGroups_def [of "dedupGroups gs @ gs'"] new_Map_groupEntry new_Map_append)
     (simp add: dedupGroups_def)

lemma dedupGroups_nil: "dedupGroups [] = []"
  by (simp add: dedupGroups_def new_Map_def Map_values_def)

lemma mergeRow_groups:
  "groups (mergeRow acc row) =
     (if hasPayload row then dedupGroups (groups acc @ row_groups row) else groups acc)"
  by (simp add: mergeRow_def hasPayload_def row_groups_def dedupGroups_def groupEntry_eq
           split: option.splits)

lemma foldl_mergeRow_groups:
  "groups acc = dedupGroups gs \<Longrightarrow>
   groups (foldl mergeRow acc rows) = dedupGroups (gs @ concat (map row_groups rows))"
proof (induction rows arbitrary: acc gs)
  case Nil
  then show ?case by simp
next
  case (Cons row rows)
  have "groups (mergeRow acc row) = dedupGroups (gs @ row_groups row)"
  proof (cases "hasPayload row")
    case True
    with Cons.prems show ?thesis by (simp add: mergeRow_groups dedupGroups_append)
  next
    case False
    then have "row_groups row = []" by (simp add: hasPayload_def row_groups_def)
    with False Cons.prems show ?thesis by (simp add: mergeRow_groups)
  qed
  from Cons.IH [OF this] show ?case by simp
qed

lemma map_of_groupEntry:
  "map_of (map groupEntry gs) i = find (\<lambda>h. Group_id h = i) gs"
  by (induction gs) (auto simp: groupEntry_def)

lemma dedupGroups_ids: "map Group_id (dedupGroups gs) = map fst (new_Map (map groupEntry gs))"
proof -
  have "map fst (map groupEntry (dedupGroups gs)) = map Group_id (dedupGroups gs)"
    by (simp add: groupEntry_def comp_def)
  then show ?thesis by (simp add: new_Map_groupEntry)
qed

lemma dedupGroups_distinct: "distinct (map Group_id (dedupGroups gs))"
  by (simp add: dedupGroups_ids new_Map_distinct)

lemma dedupGroups_set_ids: "set (map Group_id (dedupGroups gs)) = set (map Group_id gs)"
  using foldl_Map_set_keys [of "[]" "map groupEntry gs"]
  by (simp add: dedupGroups_ids new_Map_def image_image groupEntry_def)

lemma dedupGroups_last:
  assumes "g \<in> set (dedupGroups gs)"
  shows "find (\<lambda>h. Group_id h = Group_id g) (rev gs) = Some g"
proof -
  from assms have "groupEntry g \<in> set (map groupEntry (dedupGroups gs))" by simp
  then have "(Group_id g, g) \<in> set (new_Map (map groupEntry gs))"
    by (simp add: new_Map_groupEntry groupEntry_def)
  then have "map_of (new_Map (map groupEntry gs)) (Group_id g) = Some g"
    using new_Map_distinct [of "map groupEntry gs"] by simp
  then have "map_of (rev (map groupEntry gs)) (Group_id g) = Some g"
    by (simp add: new_Map_def foldl_Map_set_map_of)
  then show ?thesis
    by (simp add: rev_map map_of_groupEntry)
qed

lemma foldl_mergeRow_default_groups:
  "groups (foldl mergeRow (defaultState K) rows) = dedupGroups (concat (map row_groups rows))"
proof -
  have "groups (defaultState K) = dedupGroups []"
    by (simp add: defaultState_def dedupGroups_nil)
  from foldl_mergeRow_groups [OF this, of rows] show ?thesis by simp
qed

text \<open>
  Claim C4. Let the admin query answer with any sequence of rows. In the groups of the
  state that \<^verbatim>\<open>loadMasterState\<close> returns no id occurs twice, the ids are those of the
  groups of the rows, and each group of the result is the last one with its id among the
  groups of all rows taken in iteration order: of two versions of \<^verbatim>\<open>g1\<close>, the one of
  the later row.
\<close>

theorem loadMasterState_groups_dedup:
  assumes "sb = Some client" and "select_all client = Returns r"
    and "all_data r = Some rows" and "all_error r = None"
  shows "\<exists>s. fst (loadMasterState K sb) = Returns s
           \<and> distinct (map Group_id (groups s))
           \<and> set (map Group_id (groups s)) = set (map Group_id (concat (map row_groups rows)))
           \<and> (\<forall>g \<in> set (groups s).
                 find (\<lambda>h. Group_id h = Group_id g) (rev (concat (map row_groups rows)))
                   = Some g)"
proof -
  let ?s = "foldl mergeRow (defaultState K) rows"
  let ?all = "concat (map row_groups rows)"
  have r: "fst (loadMasterState K sb) = Returns ?s"
    by (rule loadMasterState_rows [OF assms])
  have g: "groups ?s = dedupGroups ?all"
    by (rule foldl_mergeRow_default_groups)
  have "distinct (map Group_id (groups ?s))"
    unfolding g by (rule dedupGroups_distinct)
  moreover have "set (map Group_id (groups ?s)) = set (map Group_id ?all)"
    unfolding g by (rule dedupGroups_set_ids)
  moreover have "\<forall>g \<in> set (groups ?s).
                   find (\<lambda>h. Group_id h = Group_id g) (rev ?all) = Some g"
    unfolding g by (blast intro: dedupGroups_last)
  ultimately show ?thesis using r by blast
qed

theorem loadMasterState_groups_dedup_witness:
  "select_all (demoClient Throws
       (Returns (demoAll [demoRow ''u1'' ''A'', demoRow ''u2'' ''B''])) Throws)
     = Returns (demoAll [demoRow ''u1'' ''A'', demoRow ''u2'' ''B''])
   \<and> all_data (demoAll [demoRow ''u1'' ''A'', demoRow ''u2'' ''B''])
       = Some [demoRow ''u1'' ''A'', demoRow ''u2'' ''B'']
   \<and> all_error (demoAll [demoRow ''u1'' ''A'', demoRow ''u2'' ''B'']) = None
   \<and> concat (map row_groups [demoRow ''u1'' ''A'', demoRow ''u2'' ''B''])
       = [demoGroup ''A'', demoGroup ''B'']
   \<and> map_outcome groups (fst (loadMasterState demoConstants
        (Some (demoClient Throws
           (Returns (demoAll [demoRow ''u1'' ''A'', demoRow ''u2'' ''B''])) Throws))))
       = Returns [demoGroup ''B'']
   \<and> find (\<lambda>h. Group_id h = Group_id (demoGroup ''B''))
        (rev (concat (map row_groups [demoRow ''u1'' ''A'', demoRow ''u2'' ''B''])))
       = Some (demoGroup ''B'')"
proof -
  let ?rows = "[demoRow ''u1'' ''A'', demoRow ''u2'' ''B'']"
  let ?client = "demoClient Throws (Returns (demoAll ?rows)) Throws"
  have a: "select_all ?client = Returns (demoAll ?rows)"
    by (simp add: demoClient_def)
  have b: "all_data (demoAll ?rows) = Some ?rows"
    by (simp add: demoAll_def)
  have c: "all_error (demoAll ?rows) = None"
    by (simp add: demoAll_def)
  have d: "concat (map row_groups ?rows) = [demoGroup ''A'', demoGroup ''B'']"
    by (simp add: row_groups_def demoRow_def or_empty_def)
  have e: "map_outcome groups (fst (loadMasterState demoConstants (Some ?client)))
             = Returns [demoGroup ''B'']"
    by (simp add: loadMasterState_def demoClient_def demoAll_def demoRow_def mergeRow_def
          defaultState_def or_empty_def new_Map_def Map_values_def demoGroup_def)
  from loadMasterState_groups_dedup [OF refl a b c, of demoConstants]
  obtain s where s: "fst (loadMasterState demoConstants (Some ?client)) = Returns s"
    and l: "\<forall>g \<in> set (groups s).
              find (\<lambda>h. Group_id h = Group_id g) (rev (concat (map row_groups ?rows))) = Some g"
    by blast
  from e s have "demoGroup ''B'' \<in> set (groups s)" by simp
  with l have "find (\<lambda>h. Group_id h = Group_id (demoGroup ''B''))
                 (rev (concat (map row_groups ?rows))) = Some (demoGroup ''B'')"
    by blast
  with a b c d e show ?thesis by simp
qed

subsection \<open>Users and tasks\<close>

lemma mergeRow_users: "users (mergeRow acc row) = users acc @ row_currentUser row"
  by (simp add: mergeRow_def row_currentUser_def split: option.splits)

lemma mergeRow_tasks: "tasks (mergeRow acc row) = tasks acc"
  by (simp add: mergeRow_def split: option.splits)

lemma foldl_mergeRow_users:
  "users (foldl mergeRow acc rows) = users acc @ concat (map row_currentUser rows)"
  by (induction rows arbitrary: acc) (simp_all add: mergeRow_users)

lemma foldl_mergeRow_tasks: "tasks (foldl mergeRow acc rows) = tasks acc"
  by (induction rows arbitrary: acc) (simp_all add: mergeRow_tasks)

text \<open>
  Claim C5. For any sequence of rows that the admin query answers with, the users of the
  result of \<^verbatim>\<open>loadMasterState\<close> are the seeded users followed, row by row in
  iteration order, by the embedded current user of each row that has one; the users list
  of a row plays no part. The tasks of the result are the seeded tasks, whatever tasks
  the rows hold.
\<close>

theorem loadMasterState_users_tasks:
  assumes "sb = Some client" and "select_all client = Returns r"
    and "all_data r = Some rows" and "all_error r = None"
  shows "\<exists>s. fst (loadMasterState K sb) = Returns s
           \<and> users s = INITIAL_USERS K @ concat (map row_currentUser rows)
           \<and> tasks s = INITIAL_TASKS K"
  using loadMasterState_rows [OF assms, of K]
  by (simp add: foldl_mergeRow_users foldl_mergeRow_tasks defaultState_def)

theorem loadMasterState_users_tasks_witness:
  "select_all (demoClient Throws
       (Returns (demoAll [demoRow ''u1'' ''A'', nullRow, demoRow ''u2'' ''B''])) Throws)
     = Returns (demoAll [demoRow ''u1'' ''A'', nullRow, demoRow ''u2'' ''B''])
   \<and> all_data (demoAll [demoRow ''u1'' ''A'', nullRow, demoRow ''u2'' ''B''])
       = Some [demoRow ''u1'' ''A'', nullRow, demoRow ''u2'' ''B'']
   \<and> all_error (demoAll [demoRow ''u1'' ''A'', nullRow, demoRow ''u2'' ''B'']) = None
   \<and> stored_users (the (master_state_json (demoRow ''u1'' ''A'')))
       = Some [demoUser ''x'', demoUser ''y'']
   \<and> stored_tasks (the (master_state_json (demoRow ''u1'' ''A''))) = Some [''Running'']
   \<and> map_outcome users (fst (loadMasterState demoConstants
        (Some (demoClient Throws
           (Returns (demoAll [demoRow ''u1'' ''A'', nullRow, demoRow ''u2'' ''B''])) Throws))))
       = Returns (INITIAL_USERS demoConstants @ [demoUser ''u1'', demoUser ''u2''])
   \<and> map_outcome tasks (fst (loadMasterState demoConstants
        (Some (demoClient Throws
           (Returns (demoAll [demoRow ''u1'' ''A'', nullRow, demoRow ''u2'' ''B''])) Throws))))
       = Returns [''Reading'']"
proof -
  let ?rows = "[demoRow ''u1'' ''A'', nullRow, demoRow ''u2'' ''B'']"
  let ?client = "demoClient Throws (Returns (demoAll ?rows)) Throws"
  have a: "select_all ?client = Returns (demoAll ?rows)"
    by (simp add: demoClient_def)
  have b: "all_data (demoAll ?rows) = Some ?rows"
    by (simp add: demoAll_def)
  have c: "all_error (demoAll ?rows) = None"
    by (simp add: demoAll_def)
  have d: "concat (map row_currentUser ?rows) = [demoUser ''u1'', demoUser ''u2'']"
    by (simp add: row_currentUser_def demoRow_def nullRow_def)
  have e: "INITIAL_TASKS demoConstants = [''Reading'']"
    by (simp add: demoConstants_def)
  from loadMasterState_users_tasks [OF refl a b c, of demoConstants]
  obtain s where "fst (loadMasterState demoConstants (Some ?client)) = Returns s"
    and "users s = INITIAL_USERS demoConstants @ concat (map row_currentUser ?rows)"
    and "tasks s = INITIAL_TASKS demoConstants"
    by blast
  with a b c d e show ?thesis by (simp add: demoRow_def)
qed

subsection \<open>Rows without a payload, and failed queries\<close>

lemma mergeRow_no_payload: "\<not> hasPayload row \<Longrightarrow> mergeRow acc row = acc"
  by (simp add: mergeRow_def hasPayload_def)

lemma foldl_mergeRow_filter:
  "foldl mergeRow acc (filter hasPayload rows) = foldl mergeRow acc rows"
  by (induction rows arbitrary: acc) (simp_all add: mergeRow_no_payload)

lemma loadMasterState_failed:
  assumes "sb = None \<or>
     (\<exists>client. sb = Some client \<and>
        (select_all client = Throws \<or>
         (\<exists>r. select_all client = Returns r \<and> (all_error r \<noteq> None \<or> all_data r = None))))"
  shows "fst (loadMasterState K sb) = Returns (defaultState K)"
  using assms by (auto simp: loadMasterState_def split: option.splits)

text \<open>
  Claim C7. A row whose payload is \<^verbatim>\<open>null\<close> or absent is skipped entirely: the result
  of \<^verbatim>\<open>loadMasterState\<close> on any sequence of rows is its result on the same sequence
  with those rows left out (first part, with \<open>sb\<^sub>1\<close> answering with all rows and
  \<open>sb\<^sub>2\<close> with the rows that have a payload). When the remote is not configured, the
  query throws, or it answers with an error or without data, the result is the default
  state, also when rows came with the error (second part).
\<close>

theorem loadMasterState_skips_and_fails_whole:
  "(\<forall>client\<^sub>1 r\<^sub>1 client\<^sub>2 r\<^sub>2.
       sb\<^sub>1 = Some client\<^sub>1 \<and> select_all client\<^sub>1 = Returns r\<^sub>1
       \<and> all_data r\<^sub>1 = Some rows \<and> all_error r\<^sub>1 = None
       \<and> sb\<^sub>2 = Some client\<^sub>2 \<and> select_all client\<^sub>2 = Returns r\<^sub>2
       \<and> all_data r\<^sub>2 = Some (filter hasPayload rows) \<and> all_error r\<^sub>2 = None
       \<longrightarrow> fst (loadMasterState K sb\<^sub>1) = fst (loadMasterState K sb\<^sub>2))
   \<and> (sb\<^sub>3 = None \<or>
        (\<exists>client. sb\<^sub>3 = Some client \<and>
           (select_all client = Throws \<or>
            (\<exists>r. select_all client = Returns r
                  \<and> (all_error r \<noteq> None \<or> all_data r = None))))
      \<longrightarrow> fst (loadMasterState K sb\<^sub>3) = Returns (defaultState K))"
  using loadMasterState_failed [of sb\<^sub>3 K]
  by (auto simp: loadMasterState_rows foldl_mergeRow_filter)

theorem loadMasterState_skips_and_fails_whole_witness:
  "filter hasPayload [nullRow, demoRow ''u1'' ''A'', nullRow] = [demoRow ''u1'' ''A'']
   \<and> fst (loadMasterState demoConstants
        (Some (demoClient Throws
           (Returns (demoAll [nullRow, demoRow ''u1'' ''A'', nullRow])) Throws)))
     = fst (loadMasterState demoConstants
        (Some (demoClient Throws (Returns (demoAll [demoRow ''u1'' ''A''])) Throws)))
   \<and> select_all (demoClient Throws
        (Returns \<lparr> all_data = Some [demoRow ''u1'' ''A''], all_error = Some ''timeout'' \<rparr>)
        Throws)
     = Returns \<lparr> all_data = Some [demoRow ''u1'' ''A''], all_error = Some ''timeout'' \<rparr>
   \<and> fst (loadMasterState demoConstants
        (Some (demoClient Throws
           (Returns \<lparr> all_data = Some [demoRow ''u1'' ''A''], all_error = Some ''timeout'' \<rparr>)
           Throws)))
     = Returns (defaultState demoConstants)"
proof -
  let ?rows = "[nullRow, demoRow ''u1'' ''A'', nullRow]"
  let ?c1 = "demoClient Throws (Returns (demoAll ?rows)) Throws"
  let ?c2 = "demoClient Throws (Returns (demoAll [demoRow ''u1'' ''A''])) Throws"
  let ?r3 = "\<lparr> all_data = Some [demoRow ''u1'' ''A''], all_error = Some ''timeout'' \<rparr>"
  let ?c3 = "demoClient Throws (Returns ?r3) Throws"
  have f: "filter hasPayload ?rows = [demoRow ''u1'' ''A'']"
    by (simp add: hasPayload_def nullRow_def demoRow_def)
  have a: "select_all ?c1 = Returns (demoAll ?rows)"
    and b: "select_all ?c2 = Returns (demoAll [demoRow ''u1'' ''A''])"
    and c: "select_all ?c3 = Returns ?r3"
    by (simp_all add: demoClient_def)
  have d: "all_data (demoAll ?rows) = Some ?rows" "all_error (demoAll ?rows) = None"
    "all_error (demoAll [demoRow ''u1'' ''A'']) = None"
    by (simp_all add: demoAll_def)
  have d': "all_data (demoAll [demoRow ''u1'' ''A'']) = Some (filter hasPayload ?rows)"
    unfolding f by (simp add: demoAll_def)
  have e: "all_error ?r3 \<noteq> None" by simp
  from loadMasterState_skips_and_fails_whole
         [of "Some ?c1" ?rows "Some ?c2" demoConstants "Some ?c3"]
  have "fst (loadMasterState demoConstants (Some ?c1))
          = fst (loadMasterState demoConstants (Some ?c2))
        \<and> fst (loadMasterState demoConstants (Some ?c3))
            = Returns (defaultState demoConstants)"
    using a b c d d' e by blast
  with f c show ?thesis by simp
qed

section \<open>The state updaters\<close>

subsection \<open>\<^verbatim>\<open>findIndex\<close>\<close>

lemma findIndex_ge: "- 1 \<le> findIndex P xs"
  by (induction xs) (auto simp: Let_def)

lemma findIndex_none: "findIndex P xs = - 1 \<longleftrightarrow> (\<forall>x \<in> set xs. \<not> P x)"
proof (induction xs)
  case Nil
  show ?case by simp
next
  case (Cons x xs)
  have "findIndex P xs + 1 \<noteq> - 1"
    using findIndex_ge [of P xs] by arith
  with Cons show ?case by (auto simp: Let_def)
qed

lemma findIndex_found:
  assumes "\<exists>x \<in> set xs. P x"
  shows "0 \<le> findIndex P xs \<and> nat (findIndex P xs) < length xs
         \<and> P (xs ! nat (findIndex P xs))"
  using assms
proof (induction xs)
  case Nil
  then show ?case by simp
next
  case (Cons x xs)
  show ?case
  proof (cases "P x")
    case True
    then show ?thesis by simp
  next
    case False
    with Cons.prems have ex: "\<exists>y \<in> set xs. P y" by auto
    from Cons.IH [OF ex] have ih: "0 \<le> findIndex P xs" "nat (findIndex P xs) < length xs"
      "P (xs ! nat (findIndex P xs))" by auto
    have n: "nat (findIndex P xs + 1) = Suc (nat (findIndex P xs))"
      using ih(1) by arith
    from False ih n show ?thesis by (auto simp: Let_def)
  qed
qed

subsection \<open>\<^verbatim>\<open>handleUpdateRecord\<close>\<close>

lemma sameKey_iff: "sameKey u r \<longleftrightarrow> recordKey r = (upd_userId u, upd_date u)"
  by (auto simp: sameKey_def recordKey_def)

lemma recordKey_spreadRecord: "sameKey u r \<Longrightarrow> recordKey (spreadRecord r u) = recordKey r"
  by (auto simp: sameKey_def recordKey_def spreadRecord_def split: option.splits)

lemma recordKey_newRecord: "recordKey (newRecord newId u) = (upd_userId u, upd_date u)"
  by (simp add: recordKey_def newRecord_def)

lemma uniqueKeys_update:
  assumes "uniqueKeys rs" and "i < length rs" and "recordKey r' = recordKey (rs ! i)"
  shows "uniqueKeys (rs[i := r'])"
proof -
  have "map recordKey (rs[i := r']) = (map recordKey rs)[i := recordKey (rs ! i)]"
    using assms(3) by (simp add: map_update)
  also have "\<dots> = map recordKey rs"
    using assms(2) by (simp add: list_update_same_conv)
  finally show ?thesis using assms(1) by (simp add: uniqueKeys_def)
qed

lemma uniqueKeys_append:
  assumes "uniqueKeys rs" and "\<forall>r \<in> set rs. recordKey r \<noteq> recordKey r'"
  shows "uniqueKeys (rs @ [r'])"
  using assms by (auto simp: uniqueKeys_def)

text \<open>
  Claim C6. On a state whose records have pairwise different (userId, date) keys,
  \<^verbatim>\<open>handleUpdateRecord\<close> gives a state whose records again have pairwise different
  keys. When some record has the key of the update, the list keeps its length and the
  record at one position, which has that key, is replaced there by its merge with the
  update; when none has, the list is the old one with exactly one new record at the end.
\<close>

theorem handleUpdateRecord_unique:
  assumes "uniqueKeys (records p)"
  shows "\<exists>p'. handleUpdateRecord newId u (Some p) = Some p'
           \<and> uniqueKeys (records p')
           \<and> (if \<exists>r \<in> set (records p). sameKey u r
              then length (records p') = length (records p)
                   \<and> (\<exists>i < length (records p). sameKey u (records p ! i)
                         \<and> records p' = (records p)[i := spreadRecord (records p ! i) u])
              else records p' = records p @ [newRecord newId u])"
proof (cases "\<exists>r \<in> set (records p). sameKey u r")
  case True
  let ?i = "nat (findIndex (sameKey u) (records p))"
  from findIndex_found [OF True]
  have f: "0 \<le> findIndex (sameKey u) (records p)" "?i < length (records p)"
    "sameKey u (records p ! ?i)" by auto
  have h: "handleUpdateRecord newId u (Some p)
             = Some (p\<lparr> records := (records p)[?i := spreadRecord (records p ! ?i) u] \<rparr>)"
    using f(1) by (simp add: handleUpdateRecord_def Let_def)
  have u: "uniqueKeys ((records p)[?i := spreadRecord (records p ! ?i) u])"
    using assms f(2) recordKey_spreadRecord [OF f(3)] by (rule uniqueKeys_update)
  from True h u f show ?thesis by auto
next
  case False
  then have n: "findIndex (sameKey u) (records p) = - 1"
    by (simp add: findIndex_none)
  have h: "handleUpdateRecord newId u (Some p)
             = Some (p\<lparr> records := records p @ [newRecord newId u] \<rparr>)"
    using n by (simp add: handleUpdateRecord_def Let_def)
  have "\<forall>r \<in> set (records p). recordKey r \<noteq> recordKey (newRecord newId u)"
    using False by (simp add: sameKey_iff recordKey_newRecord)
  with assms have u: "uniqueKeys (records p @ [newRecord newId u])"
    by (rule uniqueKeys_append)
  from False h u show ?thesis by simp
qed

theorem handleUpdateRecord_unique_witness:
  "uniqueKeys (records ((demoState ''A'')\<lparr> records := [demoRecord] \<rparr>))
   \<and> sameKey (demoUpdate ''2024-03-01'') demoRecord
   \<and> map_option records (handleUpdateRecord ''r2'' (demoUpdate ''2024-03-01'')
        (Some ((demoState ''A'')\<lparr> records := [demoRecord] \<rparr>)))
       = Some [demoRecord\<lparr> remarks := ''done'' \<rparr>]
   \<and> \<not> sameKey (demoUpdate ''2024-03-02'') demoRecord
   \<and> map_option records (handleUpdateRecord ''r2'' (demoUpdate ''2024-03-02'')
        (Some ((demoState ''A'')\<lparr> records := [demoRecord] \<rparr>)))
       = Some [demoRecord, newRecord ''r2'' (demoUpdate ''2024-03-02'')]"
proof -
  let ?p = "(demoState ''A'')\<lparr> records := [demoRecord] \<rparr>"
  have inv: "uniqueKeys (records ?p)"
    by (simp add: uniqueKeys_def)
  have same: "sameKey (demoUpdate ''2024-03-01'') demoRecord"
    and other: "\<not> sameKey (demoUpdate ''2024-03-02'') demoRecord"
    by (simp_all add: sameKey_def demoUpdate_def demoRecord_def)
  have merged: "spreadRecord demoRecord (demoUpdate ''2024-03-01'')
                  = demoRecord\<lparr> remarks := ''done'' \<rparr>"
    by (simp add: spreadRecord_def demoUpdate_def demoRecord_def spreadProp_def)
  from handleUpdateRecord_unique [OF inv, of "''r2''" "demoUpdate ''2024-03-01''"] same merged
  have one: "map_option records (handleUpdateRecord ''r2'' (demoUpdate ''2024-03-01'') (Some ?p))
               = Some [demoRecord\<lparr> remarks := ''done'' \<rparr>]"
    by auto
  from handleUpdateRecord_unique [OF inv, of "''r2''" "demoUpdate ''2024-03-02''"] other
  have two: "map_option records (handleUpdateRecord ''r2'' (demoUpdate ''2024-03-02'') (Some ?p))
               = Some [demoRecord, newRecord ''r2'' (demoUpdate ''2024-03-02'')]"
    by auto
  from inv same other one two show ?thesis by simp
qed

subsection \<open>\<^verbatim>\<open>handleSendMessage\<close>\<close>

text \<open>
  Claim C9. On the \<^verbatim>\<open>null\<close> state \<^verbatim>\<open>handleSendMessage\<close> returns \<^verbatim>\<open>null\<close>. On a
  state without a current user, or when the content trims to the empty string and no
  attachment is given, it returns the state unchanged. Otherwise the messages of the
  result are the old ones followed by exactly one new message, and users, tasks,
  records, groups, statuses and the current user are the old ones.
\<close>

theorem handleSendMessage_frame:
  "handleSendMessage newId now rid c a None = None
   \<and> (\<exists>p'. handleSendMessage newId now rid c a (Some p) = Some p'
        \<and> (if currentUser p = None \<or> (trim c = [] \<and> a = None) then p' = p
           else (\<exists>m. messages p' = messages p @ [m])
                \<and> users p' = users p \<and> tasks p' = tasks p \<and> records p' = records p
                \<and> groups p' = groups p \<and> statuses p' = statuses p
                \<and> currentUser p' = currentUser p))"
  by (auto simp: handleSendMessage_def split: option.splits)

theorem handleSendMessage_frame_witness:
  "trim '' '' = [] \<and> trim ''hi '' = ''hi''
   \<and> handleSendMessage ''m1'' ''2024-03-01T10:00:00.000Z'' ''admin-1'' '' '' None
        (Some ((demoState ''A'')\<lparr> currentUser := Some (demoUser ''u1'') \<rparr>))
       = Some ((demoState ''A'')\<lparr> currentUser := Some (demoUser ''u1'') \<rparr>)
   \<and> map_option messages
        (handleSendMessage ''m1'' ''2024-03-01T10:00:00.000Z'' ''admin-1'' ''hi '' None
           (Some ((demoState ''A'')\<lparr> currentUser := Some (demoUser ''u1'') \<rparr>)))
       = Some [\<lparr> Message_id = ''m1'', senderId = ''u1'', receiverId = ''admin-1'',
                 content = ''hi '', attachment = None,
                 timestamp = ''2024-03-01T10:00:00.000Z'' \<rparr>]
   \<and> map_option groups
        (handleSendMessage ''m1'' ''2024-03-01T10:00:00.000Z'' ''admin-1'' ''hi '' None
           (Some ((demoState ''A'')\<lparr> currentUser := Some (demoUser ''u1'') \<rparr>)))
       = Some [demoGroup ''A'']"
proof -
  let ?p = "(demoState ''A'')\<lparr> currentUser := Some (demoUser ''u1'') \<rparr>"
  have t: "trim '' '' = []" "trim ''hi '' = ''hi''"
    by (simp_all add: trim_def isWhiteSpace_def)
  have m: "messages ?p = []" "groups ?p = [demoGroup ''A'']"
    by (simp_all add: demoState_def defaultState_def)
  have sent: "map_option messages
        (handleSendMessage ''m1'' ''2024-03-01T10:00:00.000Z'' ''admin-1'' ''hi '' None (Some ?p))
       = Some [\<lparr> Message_id = ''m1'', senderId = ''u1'', receiverId = ''admin-1'',
                 content = ''hi '', attachment = None,
                 timestamp = ''2024-03-01T10:00:00.000Z'' \<rparr>]"
    by (simp add: handleSendMessage_def t demoState_def defaultState_def demoUser_def)
  from handleSendMessage_frame
         [of "''m1''" "''2024-03-01T10:00:00.000Z''" "''admin-1''" "'' ''" None ?p]
       handleSendMessage_frame
         [of "''m1''" "''2024-03-01T10:00:00.000Z''" "''admin-1''" "''hi ''" None ?p]
       t m sent
  show ?thesis by auto
qed


end
